theory Spec2Isabelle
  imports Complex_Main
begin

section \<open>Python values shared by the models\<close>

text \<open>
  A Python \<open>str\<close> is a sequence of Unicode code points, so a string is a list of
  natural numbers (one per code point) and \<open>len\<close> is \<open>length\<close>. \<open>cps\<close> turns an
  ASCII literal into that representation.
\<close>

type_synonym pystr = "nat list"

definition cps :: "string \<Rightarrow> pystr" where
  "cps s = map of_char s"

datatype py_error = ValueError string | KeyError pystr | IndexError | TypeError
  | ZeroDivisionError | LinAlgError

subsection \<open>String helpers\<close>

fun startswith :: "'a list \<Rightarrow> 'a list \<Rightarrow> bool" where
  "startswith s [] = True"
| "startswith [] (p # ps) = False"
| "startswith (c # cs) (p # ps) = (c = p \<and> startswith cs ps)"

text \<open>Python's \<open>sub in s\<close> on strings: \<open>sub\<close> occurs in \<open>s\<close> as a contiguous run.\<close>

fun str_contains :: "'a list \<Rightarrow> 'a list \<Rightarrow> bool" where
  "str_contains [] sub = (sub = [])"
| "str_contains (c # cs) sub = (startswith (c # cs) sub \<or> str_contains cs sub)"

subsection \<open>Character classes\<close>








section \<open>The expression parser (fit.py, parse)\<close>

definition PI :: pystr where
  "PI = [960]"











section \<open>Model-string validation (fit.py, is_valid_expression)\<close>

text \<open>
  The inner loop of \<open>is_valid_expression\<close> stops at the first \<open>=\<close> of the whole
  expression and hands \<open>expression[j + 1:]\<close> to \<open>sympy.sympify\<close>.
\<close>

fun after_first_eq :: "pystr \<Rightarrow> pystr option" where
  "after_first_eq [] = None"
| "after_first_eq (k # ks) = (if [k] = cps ''='' then Some ks else after_first_eq ks)"

text \<open>
  The outer loop, with the state \<open>(independent_variable, open_paren)\<close>. \<open>sympify_ok\<close>
  stands for the library call: it holds of the strings on which \<open>sympy.sympify\<close>
  returns without raising. The \<open>else\<close> of the \<open>for\<close> is the empty-list case.
\<close>

fun valid_loop :: "(pystr \<Rightarrow> bool) \<Rightarrow> pystr \<Rightarrow> pystr \<Rightarrow> pystr \<Rightarrow> bool \<Rightarrow> bool" where
  "valid_loop sympify_ok expression [] independent_variable open_paren = False"
| "valid_loop sympify_ok expression (c # cs) independent_variable open_paren =
     (if open_paren then
        (if [c] = cps ''='' then False
         else if [c] = cps '')'' then
           (if length independent_variable = 0 then False
            else (case after_first_eq expression of
                    Some rhs \<Rightarrow> sympify_ok rhs
                  | None \<Rightarrow> valid_loop sympify_ok expression cs independent_variable True))
         else valid_loop sympify_ok expression cs (independent_variable @ [c]) True)
      else valid_loop sympify_ok expression cs independent_variable ([c] = cps ''(''))"

definition is_valid_expression :: "(pystr \<Rightarrow> bool) \<Rightarrow> pystr \<Rightarrow> bool" where
  "is_valid_expression sympify_ok expression =
     (if \<not> str_contains expression (cps ''='') then False
      else valid_loop sympify_ok expression expression [] False)"

section \<open>Textual substitution before compilation (fit.py, FitEngine)\<close>

text \<open>
  Python's \<open>str.replace(old, new)\<close>: every non-overlapping occurrence of \<open>old\<close>,
  found from the left, is replaced; an empty \<open>old\<close> matches before every character
  and at the end.
\<close>

function str_replace :: "pystr \<Rightarrow> pystr \<Rightarrow> pystr \<Rightarrow> pystr" where
  "str_replace [] old new = (if old = [] then new else [])"
| "str_replace (c # cs) old new =
     (if old = [] then new @ c # str_replace cs old new
      else if startswith (c # cs) old
        then new @ str_replace (drop (length old) (c # cs)) old new
      else c # str_replace cs old new)"
  by pat_completeness auto
termination
  by (relation "measure (\<lambda>(s, old, new). length s)") auto

text \<open>
  \<open>_replace_fixed\<close> and \<open>_replace_var_with\<close> (the leading underscore is dropped:
  an Isabelle name starts with a letter). \<open>str_value\<close> is Python's \<open>str\<close> on the
  stored value.
\<close>

fun replace_fixed :: "('v \<Rightarrow> pystr) \<Rightarrow> pystr \<Rightarrow> pystr list \<Rightarrow> 'v list \<Rightarrow> pystr" where
  "replace_fixed str_value function (symbol # symbols) (v # vs) =
     replace_fixed str_value (str_replace function symbol (str_value v)) symbols vs"
| "replace_fixed str_value function symbols vs = function"

definition replace_var_with :: "pystr \<Rightarrow> pystr \<Rightarrow> pystr \<Rightarrow> pystr" where
  "replace_var_with function old_symbol new_symbol = str_replace function old_symbol new_symbol"

section \<open>Fit specifications and fits (fit.py)\<close>

text \<open>
  Python dictionaries keep insertion order, so a \<open>dict\<close> is an association list;
  \<open>d[k] = v\<close> overwrites in place or appends, \<open>d[k]\<close> raises \<open>KeyError\<close> on a
  missing key. Stored parameter values are Python floats, modelled as reals.
  Record fields are global names in Isabelle, so a field whose name is reserved or
  used by two classes carries a prefix: \<open>var_value\<close> is \<open>FitVar.value\<close>,
  \<open>spec_function\<close> and \<open>spec_variables\<close> are \<open>FitSpec.function\<close> and
  \<open>FitSpec.variables\<close>, \<open>fit_variables\<close> is \<open>Fit.variables\<close>, and \<open>ds_id\<close>,
  \<open>ds_options\<close>, \<open>ds_function\<close> are the fields of \<open>FitDataset\<close>.
\<close>

fun dict_set :: "'k \<Rightarrow> 'v \<Rightarrow> ('k \<times> 'v) list \<Rightarrow> ('k \<times> 'v) list" where
  "dict_set k v [] = [(k, v)]"
| "dict_set k v (p # ps) = (if fst p = k then (k, v) # ps else p # dict_set k v ps)"

definition ebind :: "'e + 'a \<Rightarrow> ('a \<Rightarrow> 'e + 'b) \<Rightarrow> 'e + 'b" where
  "ebind m f = (case m of Inl e \<Rightarrow> Inl e | Inr x \<Rightarrow> f x)"

definition enumerate_list :: "'a list \<Rightarrow> (nat \<times> 'a) list" where
  "enumerate_list xs = zip [0..<length xs] xs"

datatype FitOptions = GLOBAL | LEAST_SQUARES | ALPHA_CORRECT

record FitVar =
  symbol :: pystr
  name :: pystr
  var_value :: real
  is_fixed :: bool
  lower :: real
  upper :: real
  is_global :: bool
  independent :: bool

text \<open>
  Modelled from the spec: the class of the datasets held in \<open>FitSpec.asymmetries\<close>
  (an array of asymmetry values carrying \<open>time\<close> and \<open>uncertainty\<close> arrays, from
  \<open>app.model.domain\<close>) is not among the sources. \<open>len\<close> of a dataset is
  \<open>length (asym_values a)\<close>.
\<close>

record asymmetry =
  asym_values :: "real list"
  asym_uncertainty :: "real list"
  asym_time :: "real list"

record FitSpec =
  spec_function :: pystr
  spec_variables :: "(pystr \<times> FitVar) list"
  asymmetries :: "(pystr \<times> asymmetry) list"
  options :: "FitOptions \<Rightarrow> bool"

definition get_fixed_symbols :: "FitSpec \<Rightarrow> pystr list" where
  "get_fixed_symbols spec = map symbol (filter is_fixed (map snd (spec_variables spec)))"

definition get_fixed_guesses :: "FitSpec \<Rightarrow> real list" where
  "get_fixed_guesses spec = map var_value (filter is_fixed (map snd (spec_variables spec)))"

definition get_unfixed_symbols :: "FitSpec \<Rightarrow> pystr list" where
  "get_unfixed_symbols spec =
     map symbol (filter (\<lambda>var. \<not> is_fixed var) (map snd (spec_variables spec)))"

definition get_unfixed_lower_bounds :: "FitSpec \<Rightarrow> real list" where
  "get_unfixed_lower_bounds spec =
     map lower (filter (\<lambda>var. \<not> is_fixed var) (map snd (spec_variables spec)))"

definition get_unfixed_upper_bounds :: "FitSpec \<Rightarrow> real list" where
  "get_unfixed_upper_bounds spec =
     map upper (filter (\<lambda>var. \<not> is_fixed var) (map snd (spec_variables spec)))"

definition get_unfixed_guesses :: "FitSpec \<Rightarrow> real list" where
  "get_unfixed_guesses spec =
     map var_value (filter (\<lambda>var. \<not> is_fixed var) (map snd (spec_variables spec)))"

definition get_non_global_symbols :: "FitSpec \<Rightarrow> pystr list" where
  "get_non_global_symbols spec =
     map symbol (filter (\<lambda>var. \<not> is_global var) (map snd (spec_variables spec)))"

text \<open>\<open>_shortened_run_id\<close>: \<open>run_id.split('-')[0]\<close>, the text before the first hyphen.\<close>

definition shortened_run_id :: "pystr \<Rightarrow> pystr" where
  "shortened_run_id run_id = takeWhile (\<lambda>c. [c] \<noteq> cps ''-'') run_id"

text \<open>
  The unknowns of a global fit, one list entry per unknown: a fixed variable gives
  none, a non-global one gives one per run, a global one gives one. The symbols are
  the keys of \<open>spec.variables\<close>.
\<close>

definition global_fit_expand ::
  "FitSpec \<Rightarrow> (pystr \<Rightarrow> pystr \<Rightarrow> FitVar \<Rightarrow> 'a) \<Rightarrow> (pystr \<Rightarrow> FitVar \<Rightarrow> 'a) \<Rightarrow> 'a list" where
  "global_fit_expand spec per_run shared =
     concat (map (\<lambda>(symb, variable).
        if is_fixed variable then []
        else if \<not> is_global variable
          then map (\<lambda>(run_id, _). per_run symb run_id variable) (asymmetries spec)
        else [shared symb variable]) (spec_variables spec))"

definition get_global_fit_symbols :: "FitSpec \<Rightarrow> pystr list" where
  "get_global_fit_symbols spec =
     global_fit_expand spec (\<lambda>symb run_id variable. symb @ shortened_run_id run_id)
       (\<lambda>symb variable. symb)"

definition get_global_fit_guesses :: "FitSpec \<Rightarrow> real list" where
  "get_global_fit_guesses spec =
     global_fit_expand spec (\<lambda>symb run_id variable. var_value variable)
       (\<lambda>symb variable. var_value variable)"

definition get_global_fit_lowers :: "FitSpec \<Rightarrow> real list" where
  "get_global_fit_lowers spec =
     global_fit_expand spec (\<lambda>symb run_id variable. lower variable) (\<lambda>symb variable. lower variable)"

definition get_global_fit_uppers :: "FitSpec \<Rightarrow> real list" where
  "get_global_fit_uppers spec =
     global_fit_expand spec (\<lambda>symb run_id variable. upper variable) (\<lambda>symb variable. upper variable)"

definition get_data_length :: "FitSpec \<Rightarrow> py_error + nat" where
  "get_data_length spec =
     (case asymmetries spec of [] \<Rightarrow> Inl IndexError
      | (run_id, a) # _ \<Rightarrow> Inr (length (asym_values a)))"

subsection \<open>Fit objects\<close>

text \<open>
  \<open>'lam\<close> is the type of a compiled evaluator (what \<open>sympy.lambdify\<close> returns) and
  \<open>'title\<close> the type of a run title. A \<open>Fit\<close> starts with no evaluator
  (\<open>expression_as_lambda = None\<close>).
\<close>

record ('lam, 'title) Fit =
  fit_variables :: "(pystr \<times> FitVar) list"
  kwargs :: "(pystr \<times> real) list"
  expression_as_string :: "pystr option"
  expression_as_lambda :: "'lam option"
  title :: "'title option"
  run_id :: "pystr option"

definition new_Fit :: "('lam, 'title) Fit" where
  "new_Fit = \<lparr>fit_variables = [], kwargs = [], expression_as_string = None,
     expression_as_lambda = None, title = None, run_id = None\<rparr>"

text \<open>The setter of \<open>Fit.variables\<close>: it rebuilds \<open>kwargs\<close> from the variables that are not fixed.\<close>

definition set_variables :: "('lam, 'title) Fit \<Rightarrow> (pystr \<times> FitVar) list \<Rightarrow> ('lam, 'title) Fit" where
  "set_variables self vars =
     self\<lparr>fit_variables := vars,
          kwargs := fold (\<lambda>var kw. if \<not> is_fixed var then dict_set (symbol var) (var_value var) kw else kw)
                      (map snd vars) []\<rparr>"

text \<open>
  The positional arguments of \<open>Fit.__call__\<close> are arbitrary Python objects; the test
  \<open>type(args[0]) != np.ndarray\<close> separates an array from everything else.
\<close>

datatype pyobject = NdArray "real list" | PyList "real list" | PyFloat real | PyInt int
  | PyStr pystr | PyNone

text \<open>
  \<open>Fit.__call__\<close>. The evaluator is applied to the array and to the stored keyword
  arguments; the keyword arguments of the call itself are not used. Calling the
  initial \<open>None\<close> raises \<open>TypeError\<close>.
\<close>

definition Fit_call ::
  "(real list \<Rightarrow> (pystr \<times> real) list \<Rightarrow> 'res, 'title) Fit \<Rightarrow> pyobject list
     \<Rightarrow> (pystr \<times> pyobject) list \<Rightarrow> py_error + 'res" where
  "Fit_call self args kw =
     (case args of
        [] \<Rightarrow> Inl (ValueError ''Only takes numpy array of values as an input.'')
      | a # _ \<Rightarrow>
         (case a of
            NdArray xs \<Rightarrow>
              (case expression_as_lambda self of
                 None \<Rightarrow> Inl TypeError
               | Some f \<Rightarrow> Inr (f xs (kwargs self)))
          | _ \<Rightarrow> Inl (ValueError ''Only takes numpy array of values as an input.'')))"

subsection \<open>Compilation\<close>

definition NAUGHT :: pystr where
  "NAUGHT = [8320]"

definition replace_symbols :: "pystr \<Rightarrow> pystr" where
  "replace_symbols expression =
     concat (map (\<lambda>c. if [c] = PI then cps ''pi''
                       else if [c] = cps ''^'' then cps ''**''
                       else if [c] = NAUGHT then cps ''0''
                       else [c]) expression)"

definition INDEPENDENT_VARIABLE :: pystr where
  "INDEPENDENT_VARIABLE = cps ''t''"

text \<open>
  What the engine takes from outside: \<open>sp_lambdify names e\<close> is
  \<open>sympy.lambdify(names, sympy.sympify(e), "numpy")\<close>; \<open>least_squares\<close> is the
  optimizer of scipy, given the evaluator behind the residual, the guesses, the
  bounds and the (time, asymmetry, uncertainty) arrays, and returns \<open>opt.x\<close>;
  \<open>get_title\<close> is the run service's title lookup; \<open>str_value\<close> is Python's \<open>str\<close>
  on a stored value; \<open>current_time\<close> is the formatted time a new dataset is named by.
\<close>

datatype 'lam lambda_expression =
    Compiled 'lam
  | Dispatcher "(pystr \<times> 'lam) list" "pystr list"

record ('lam, 'title) externals =
  sp_lambdify :: "pystr list \<Rightarrow> pystr \<Rightarrow> py_error + 'lam"
  least_squares :: "'lam lambda_expression \<Rightarrow> real list \<Rightarrow> real list \<Rightarrow> real list
      \<Rightarrow> real list \<times> real list \<times> real list \<Rightarrow> py_error + real list"
  get_title :: "pystr \<Rightarrow> py_error + 'title"
  str_value :: "real \<Rightarrow> pystr"
  current_time :: pystr

text \<open>
  \<open>lambdify\<close>. Every caller passes a list as \<open>variables\<close>, and \<open>list.pop\<close> with a
  string argument raises \<open>TypeError\<close>.
\<close>

definition lambdify ::
  "('lam, 'title) externals \<Rightarrow> pystr \<Rightarrow> pystr list \<Rightarrow> pystr \<Rightarrow> py_error + 'lam" where
  "lambdify E expression variables independent_variable =
     (let expression_string = replace_symbols expression
      in if independent_variable \<in> set variables then Inl TypeError
         else sp_lambdify E (independent_variable # map replace_symbols variables) expression_string)"

definition ALPHA :: pystr where
  "ALPHA = [945]"

text \<open>\<open>ALPHA_CORRECTION.format(a, b)\<close>.\<close>

definition ALPHA_CORRECTION_format :: "pystr \<Rightarrow> pystr \<Rightarrow> pystr" where
  "ALPHA_CORRECTION_format a b =
     cps ''((1-'' @ ALPHA @ cps '')+((1+'' @ ALPHA @ cps '')*('' @ a @ cps '')))/((1+'' @ ALPHA
       @ cps '')+((1-'' @ ALPHA @ cps '')*('' @ b @ cps '')))''"

record ('lam, 'title) FitDataset =
  ds_id :: pystr
  fits :: "(pystr \<times> ('lam, 'title) Fit) list"
  ds_options :: "FitOptions \<rightharpoonup> bool"
  ds_function :: "pystr option"

definition new_FitDataset :: "('lam, 'title) externals \<Rightarrow> ('lam, 'title) FitDataset" where
  "new_FitDataset E = \<lparr>ds_id = current_time E, fits = [], ds_options = Map.empty,
     ds_function = None\<rparr>"

subsection \<open>The fit engine\<close>

text \<open>Indexing a Python sequence: a negative index counts from the end.\<close>

definition py_index :: "'a list \<Rightarrow> int \<Rightarrow> py_error + 'a" where
  "py_index xs i =
     (if 0 \<le> i \<and> i < int (length xs) then Inr (xs ! nat i)
      else if i < 0 \<and> - int (length xs) \<le> i then Inr (xs ! nat (int (length xs) + i))
      else Inl IndexError)"

definition fixed_replaced :: "('lam, 'title) externals \<Rightarrow> FitSpec \<Rightarrow> pystr \<Rightarrow> pystr" where
  "fixed_replaced E spec f =
     replace_fixed (str_value E) f (get_fixed_symbols spec) (get_fixed_guesses spec)"

text \<open>
  \<open>for i, symbol in enumerate(spec.get_unfixed_symbols()):
  final_variables[symbol].value = opt.x[i]\<close>; the right-hand side is evaluated first.
\<close>

fun assign_unfixed ::
  "(pystr \<times> FitVar) list \<Rightarrow> (nat \<times> pystr) list \<Rightarrow> real list \<Rightarrow> py_error + (pystr \<times> FitVar) list" where
  "assign_unfixed final_variables [] x = Inr final_variables"
| "assign_unfixed final_variables ((i, symb) # rest) x =
     (if i < length x then
        (case map_of final_variables symb of
           None \<Rightarrow> Inl (KeyError symb)
         | Some var \<Rightarrow>
             assign_unfixed (dict_set symb (var\<lparr>var_value := x ! i\<rparr>) final_variables) rest x)
      else Inl IndexError)"

text \<open>The body of the loop over the runs in \<open>_least_squares_fit_non_global\<close>.\<close>

definition non_global_fit_run ::
  "('lam, 'title) externals \<Rightarrow> FitSpec \<Rightarrow> 'lam lambda_expression \<Rightarrow> pystr \<Rightarrow> asymmetry
     \<Rightarrow> py_error + ('lam, 'title) Fit" where
  "non_global_fit_run E spec residual rid asymm =
     ebind (if length (get_unfixed_symbols spec) \<noteq> 0 then
              ebind (least_squares E residual (get_unfixed_guesses spec)
                       (get_unfixed_lower_bounds spec) (get_unfixed_upper_bounds spec)
                       (asym_time asymm, asym_values asymm, asym_uncertainty asymm))
                (\<lambda>x. assign_unfixed (spec_variables spec)
                        (enumerate_list (get_unfixed_symbols spec)) x)
            else Inr (spec_variables spec))
       (\<lambda>final_variables.
     ebind (lambdify E (fixed_replaced E spec (spec_function spec)) (get_unfixed_symbols spec)
              INDEPENDENT_VARIABLE)
       (\<lambda>lambda_expression_without_alpha.
     ebind (get_title E rid)
       (\<lambda>t. Inr ((set_variables new_Fit final_variables)
                    \<lparr>expression_as_string := Some (spec_function spec),
                     expression_as_lambda := Some lambda_expression_without_alpha,
                     title := Some t, run_id := Some rid\<rparr>))))"

fun non_global_runs ::
  "('lam, 'title) externals \<Rightarrow> FitSpec \<Rightarrow> 'lam lambda_expression \<Rightarrow> (pystr \<times> asymmetry) list
     \<Rightarrow> ('lam, 'title) FitDataset \<Rightarrow> py_error + ('lam, 'title) FitDataset" where
  "non_global_runs E spec residual [] dataset = Inr dataset"
| "non_global_runs E spec residual ((rid, asymm) # rest) dataset =
     ebind (non_global_fit_run E spec residual rid asymm)
       (\<lambda>new_fit. non_global_runs E spec residual rest
                     (dataset\<lparr>fits := dict_set rid new_fit (fits dataset)\<rparr>))"

definition least_squares_fit_non_global ::
  "('lam, 'title) externals \<Rightarrow> FitSpec \<Rightarrow> py_error + ('lam, 'title) FitDataset" where
  "least_squares_fit_non_global E spec =
     (let f = (if options spec ALPHA_CORRECT
               then fixed_replaced E spec
                      (ALPHA_CORRECTION_format (spec_function spec) (spec_function spec))
               else fixed_replaced E spec (spec_function spec))
      in ebind (lambdify E f (get_unfixed_symbols spec) INDEPENDENT_VARIABLE)
           (\<lambda>lambda_expression.
         ebind (non_global_runs E spec (Compiled lambda_expression) (asymmetries spec)
                  (new_FitDataset E))
           (\<lambda>dataset. Inr (dataset\<lparr>ds_options := (\<lambda>opt. Some (options spec opt)),
                                     ds_function := Some (spec_function spec)\<rparr>))))"

text \<open>
  \<open>_lambdify_global\<close>: one evaluator per run, compiled from the expression in which
  every non-global symbol has the run's short identifier appended. The \<open>print\<close> of
  \<open>concatenated_time[((i + 1) * spec.get_data_length()) - 1]\<close> is kept for the
  \<open>IndexError\<close> it can raise.
\<close>

fun lambdify_global_runs ::
  "('lam, 'title) externals \<Rightarrow> FitSpec \<Rightarrow> pystr \<Rightarrow> real list \<Rightarrow> (nat \<times> pystr \<times> asymmetry) list
     \<Rightarrow> (pystr \<times> 'lam) list \<times> pystr list \<Rightarrow> py_error + (pystr \<times> 'lam) list \<times> pystr list" where
  "lambdify_global_runs E spec f concatenated_time [] acc = Inr acc"
| "lambdify_global_runs E spec f concatenated_time ((i, rid, asymm) # rest) (lambdas, run_id_order) =
     (let new_function = fold (\<lambda>var g. replace_var_with g var (var @ shortened_run_id rid))
                           (get_non_global_symbols spec) f
      in ebind (lambdify E new_function (get_global_fit_symbols spec) INDEPENDENT_VARIABLE)
           (\<lambda>new_lambda_expression.
         ebind (get_data_length spec)
           (\<lambda>n.
         ebind (py_index concatenated_time (int ((i + 1) * n) - 1))
           (\<lambda>shown. lambdify_global_runs E spec f concatenated_time rest
                       (dict_set rid new_lambda_expression lambdas, run_id_order @ [rid])))))"

definition lambdify_global ::
  "('lam, 'title) externals \<Rightarrow> FitSpec \<Rightarrow> real list \<Rightarrow> py_error + 'lam lambda_expression" where
  "lambdify_global E spec concatenated_time =
     (let f = (if options spec ALPHA_CORRECT
               then fixed_replaced E spec
                      (ALPHA_CORRECTION_format (spec_function spec) (spec_function spec))
               else fixed_replaced E spec (spec_function spec))
      in ebind (lambdify_global_runs E spec f concatenated_time
                  (enumerate_list (asymmetries spec)) ([], []))
           (\<lambda>(lambdas, run_id_order). Inr (Dispatcher lambdas run_id_order)))"

text \<open>\<open>for i, symbol in enumerate(spec.get_global_fit_symbols()): values[symbol] = opt.x[i]\<close>.\<close>

fun collect_values ::
  "(nat \<times> pystr) list \<Rightarrow> real list \<Rightarrow> (pystr \<times> real) list \<Rightarrow> py_error + (pystr \<times> real) list" where
  "collect_values [] x vals = Inr vals"
| "collect_values ((i, symb) # rest) x vals =
     (if i < length x then collect_values rest x (dict_set symb (x ! i) vals)
      else Inl IndexError)"

text \<open>
  The loop over \<open>final_variables.items()\<close> in \<open>_least_squares_fit_global\<close>: every
  variable, fixed or not, takes its value from \<open>values\<close>.
\<close>

fun scatter_values ::
  "(pystr \<times> real) list \<Rightarrow> pystr \<Rightarrow> (pystr \<times> FitVar) list \<Rightarrow> py_error + (pystr \<times> FitVar) list" where
  "scatter_values vals rid [] = Inr []"
| "scatter_values vals rid ((symb, var) # rest) =
     (let k = (if \<not> is_global var then symb @ shortened_run_id rid else symb)
      in case map_of vals k of
           None \<Rightarrow> Inl (KeyError k)
         | Some v \<Rightarrow>
             ebind (scatter_values vals rid rest)
               (\<lambda>rest'. Inr ((symb, var\<lparr>var_value := v\<rparr>) # rest')))"

definition global_fit_run ::
  "('lam, 'title) externals \<Rightarrow> FitSpec \<Rightarrow> (pystr \<times> real) list \<Rightarrow> pystr
     \<Rightarrow> py_error + ('lam, 'title) Fit" where
  "global_fit_run E spec vals rid =
     ebind (scatter_values vals rid (spec_variables spec))
       (\<lambda>final_variables.
     ebind (lambdify E (spec_function spec) (map fst final_variables) INDEPENDENT_VARIABLE)
       (\<lambda>lam.
     ebind (get_title E rid)
       (\<lambda>t. Inr ((set_variables new_Fit final_variables)
                    \<lparr>expression_as_string := Some (spec_function spec),
                     expression_as_lambda := Some lam,
                     title := Some t, run_id := Some rid\<rparr>))))"

fun global_runs ::
  "('lam, 'title) externals \<Rightarrow> FitSpec \<Rightarrow> (pystr \<times> real) list \<Rightarrow> (pystr \<times> asymmetry) list
     \<Rightarrow> ('lam, 'title) FitDataset \<Rightarrow> py_error + ('lam, 'title) FitDataset" where
  "global_runs E spec vals [] dataset = Inr dataset"
| "global_runs E spec vals ((rid, asymm) # rest) dataset =
     ebind (global_fit_run E spec vals rid)
       (\<lambda>new_fit. global_runs E spec vals rest
                     (dataset\<lparr>fits := dict_set rid new_fit (fits dataset)\<rparr>))"

definition least_squares_fit_global ::
  "('lam, 'title) externals \<Rightarrow> FitSpec \<Rightarrow> py_error + ('lam, 'title) FitDataset" where
  "least_squares_fit_global E spec =
     (let concatenated_asymmetry = concat (map (\<lambda>(rid, a). asym_values a) (asymmetries spec));
          concatenated_uncertainty = concat (map (\<lambda>(rid, a). asym_uncertainty a) (asymmetries spec));
          concatenated_time = concat (map (\<lambda>(rid, a). asym_time a) (asymmetries spec))
      in ebind (lambdify_global E spec concatenated_time)
           (\<lambda>global_lambda_expression.
         ebind (least_squares E global_lambda_expression (get_global_fit_guesses spec)
                  (get_global_fit_lowers spec) (get_global_fit_uppers spec)
                  (concatenated_time, concatenated_asymmetry, concatenated_uncertainty))
           (\<lambda>x.
         ebind (collect_values (enumerate_list (get_global_fit_symbols spec)) x [])
           (\<lambda>vals.
         ebind (global_runs E spec vals (asymmetries spec) (new_FitDataset E))
           (\<lambda>dataset. Inr (dataset\<lparr>ds_options := (\<lambda>opt. Some (options spec opt)),
                                     ds_function := Some (spec_function spec)\<rparr>))))))"

text \<open>
  \<open>FitEngine.fit\<close>. \<open>spec.get_data()\<close> is the dictionary itself, and iterating a
  dictionary yields its keys: \<open>len(asymmetry)\<close> in the first test is the length of a
  run identifier. Without the least-squares option the method returns \<open>None\<close>.
\<close>

definition fit ::
  "('lam, 'title) externals \<Rightarrow> FitSpec \<Rightarrow> py_error + ('lam, 'title) FitDataset option" where
  "fit E spec =
     (if length (remdups (map (\<lambda>(rid, a). length rid) (asymmetries spec))) \<noteq> 1
        then Inl (ValueError ''Must have one or more datasets all of equal length to fit'')
      else if spec_function spec = [] then Inl (ValueError ''Empty function attribute'')
      else if options spec GLOBAL then
        (if options spec LEAST_SQUARES
           then ebind (least_squares_fit_global E spec) (\<lambda>dataset. Inr (Some dataset))
         else Inr None)
      else
        (if options spec LEAST_SQUARES
           then ebind (least_squares_fit_non_global E spec) (\<lambda>dataset. Inr (Some dataset))
         else Inr None))"

subsection \<open>Concrete fit requests\<close>

text \<open>
  Stand-ins for the libraries: compilation returns the argument names and the
  expression it was given, the optimizer returns the vector \<open>x\<close>, the title of a
  run is its identifier, every value prints as \<open>1.0\<close>.
\<close>

definition stub_externals :: "real list \<Rightarrow> (pystr list \<times> pystr, pystr) externals" where
  "stub_externals x =
     \<lparr>sp_lambdify = (\<lambda>names e. Inr (names, e)),
      least_squares = (\<lambda>residual guesses lowers uppers data. Inr x),
      get_title = (\<lambda>rid. Inr rid),
      str_value = (\<lambda>v. cps ''1.0''),
      current_time = cps ''01.01.2021 at 00.00.00''\<rparr>"

definition var_a :: FitVar where
  "var_a = \<lparr>symbol = cps ''a'', name = cps ''a'', var_value = 1, is_fixed = False,
     lower = 0, upper = 4, is_global = True, independent = False\<rparr>"

definition var_b :: FitVar where
  "var_b = \<lparr>symbol = cps ''b'', name = cps ''b'', var_value = 2, is_fixed = False,
     lower = 0, upper = 4, is_global = True, independent = False\<rparr>"

definition run_long :: asymmetry where
  "run_long = \<lparr>asym_values = [3, 2, 1], asym_uncertainty = [1, 1, 1], asym_time = [0, 1, 2]\<rparr>"

definition run_short :: asymmetry where
  "run_short = \<lparr>asym_values = [3, 2], asym_uncertainty = [1, 1], asym_time = [0, 1]\<rparr>"

definition default_options :: "FitOptions \<Rightarrow> bool" where
  "default_options opt = (opt = LEAST_SQUARES)"

text \<open>A per-run request whose two datasets have three and two samples.\<close>

definition unequal_spec :: FitSpec where
  "unequal_spec =
     \<lparr>spec_function = cps ''a*t'', spec_variables = [(cps ''a'', var_a)],
      asymmetries = [(cps ''1001'', run_long), (cps ''1002'', run_short)],
      options = default_options\<rparr>"

text \<open>A global request over one run, with \<open>a\<close> fixed at 1 and \<open>b\<close> free.\<close>

definition global_fixed_spec :: FitSpec where
  "global_fixed_spec =
     \<lparr>spec_function = cps ''a*t+b'',
      spec_variables = [(cps ''a'', var_a\<lparr>is_fixed := True\<rparr>), (cps ''b'', var_b)],
      asymmetries = [(cps ''1001'', run_long)],
      options = (\<lambda>opt. opt = LEAST_SQUARES \<or> opt = GLOBAL)\<rparr>"

section \<open>Floating-point values\<close>

text \<open>
  A numpy \<open>float64\<close> is a finite number, an infinity or NaN. The finite values
  are modelled as reals: rounding, overflow and the sign of zero are left out, so a
  quotient by zero takes its sign from the numerator alone. The operations follow
  the IEEE rules for the special values; numpy arithmetic never raises on them.
\<close>

datatype float64 = Finite real | PosInf | NegInf | NaN

fun fneg :: "float64 \<Rightarrow> float64" where
  "fneg (Finite a) = Finite (- a)"
| "fneg PosInf = NegInf"
| "fneg NegInf = PosInf"
| "fneg NaN = NaN"

fun fadd :: "float64 \<Rightarrow> float64 \<Rightarrow> float64" where
  "fadd (Finite a) (Finite b) = Finite (a + b)"
| "fadd NaN y = NaN"
| "fadd x NaN = NaN"
| "fadd PosInf NegInf = NaN"
| "fadd NegInf PosInf = NaN"
| "fadd PosInf y = PosInf"
| "fadd NegInf y = NegInf"
| "fadd x PosInf = PosInf"
| "fadd x NegInf = NegInf"

definition fsub :: "float64 \<Rightarrow> float64 \<Rightarrow> float64" where
  "fsub x y = fadd x (fneg y)"

text \<open>The sign of an infinite product or quotient: \<open>True\<close> for a negative operand.\<close>

definition inf_of_sign :: "bool \<Rightarrow> float64" where
  "inf_of_sign negative = (if negative then NegInf else PosInf)"

fun fmul :: "float64 \<Rightarrow> float64 \<Rightarrow> float64" where
  "fmul (Finite a) (Finite b) = Finite (a * b)"
| "fmul NaN y = NaN"
| "fmul x NaN = NaN"
| "fmul (Finite a) PosInf = (if a = 0 then NaN else inf_of_sign (a < 0))"
| "fmul (Finite a) NegInf = (if a = 0 then NaN else inf_of_sign (0 < a))"
| "fmul PosInf (Finite b) = (if b = 0 then NaN else inf_of_sign (b < 0))"
| "fmul NegInf (Finite b) = (if b = 0 then NaN else inf_of_sign (0 < b))"
| "fmul PosInf PosInf = PosInf"
| "fmul NegInf NegInf = PosInf"
| "fmul PosInf NegInf = NegInf"
| "fmul NegInf PosInf = NegInf"

fun fdiv :: "float64 \<Rightarrow> float64 \<Rightarrow> float64" where
  "fdiv (Finite a) (Finite b) =
     (if b = 0 then (if a = 0 then NaN else inf_of_sign (a < 0)) else Finite (a / b))"
| "fdiv NaN y = NaN"
| "fdiv x NaN = NaN"
| "fdiv (Finite a) PosInf = Finite 0"
| "fdiv (Finite a) NegInf = Finite 0"
| "fdiv PosInf (Finite b) = inf_of_sign (b < 0)"
| "fdiv NegInf (Finite b) = inf_of_sign (0 \<le> b)"
| "fdiv x y = NaN"



text \<open>\<open>np.sum\<close> and \<open>np.mean\<close>; the mean of an empty array is NaN.\<close>

definition fsum :: "float64 list \<Rightarrow> float64" where
  "fsum xs = foldl fadd (Finite 0) xs"

definition np_mean :: "float64 list \<Rightarrow> float64" where
  "np_mean xs = fdiv (fsum xs) (Finite (real (length xs)))"

text \<open>\<open>np.min\<close> and \<open>np.max\<close> of two values; NaN propagates.\<close>

fun fmin :: "float64 \<Rightarrow> float64 \<Rightarrow> float64" where
  "fmin NaN y = NaN"
| "fmin x NaN = NaN"
| "fmin NegInf y = NegInf"
| "fmin x NegInf = NegInf"
| "fmin PosInf y = y"
| "fmin x PosInf = x"
| "fmin (Finite a) (Finite b) = Finite (min a b)"

fun fmax :: "float64 \<Rightarrow> float64 \<Rightarrow> float64" where
  "fmax NaN y = NaN"
| "fmax x NaN = NaN"
| "fmax PosInf y = PosInf"
| "fmax x PosInf = PosInf"
| "fmax NegInf y = y"
| "fmax x NegInf = x"
| "fmax (Finite a) (Finite b) = Finite (max a b)"

subsection \<open>Rounding of scalar operations\<close>

text \<open>
  Where a whole number is taken from a quotient of Python floats, the rounding of
  each operation decides it, so those operations are rounded: \<open>fl x\<close> is the
  double nearest to \<open>x\<close>, ties to the even mantissa, with 53 bits of mantissa.
  The exponent range (overflow, subnormal numbers) is not modelled.
  \<open>binary_exponent x\<close> is the \<open>e\<close> with \<open>2\<^sup>e \<le> x < 2\<^sup>e\<^sup>+\<^sup>1\<close> for positive \<open>x\<close>, found
  by halving or doubling.
\<close>

function count_halvings :: "real \<Rightarrow> nat" where
  "count_halvings x = (if 2 \<le> x then Suc (count_halvings (x / 2)) else 0)"
  by pat_completeness auto
termination
proof (relation "measure (\<lambda>x. nat \<lfloor>x\<rfloor>)")
  show "wf (measure (\<lambda>x. nat \<lfloor>x\<rfloor>))" by simp
  fix x :: real assume "2 \<le> x"
  then have "\<lfloor>x / 2\<rfloor> < \<lfloor>x\<rfloor>" by linarith
  moreover have "0 < \<lfloor>x\<rfloor>" using \<open>2 \<le> x\<close> by linarith
  ultimately show "(x / 2, x) \<in> measure (\<lambda>x. nat \<lfloor>x\<rfloor>)" by simp
qed

function count_doublings :: "real \<Rightarrow> nat" where
  "count_doublings x = (if 0 < x \<and> x < 1 then Suc (count_doublings (2 * x)) else 0)"
  by pat_completeness auto
termination
proof (relation "measure (\<lambda>x. nat \<lceil>1 / x\<rceil>)")
  show "wf (measure (\<lambda>x. nat \<lceil>1 / x\<rceil>))" by simp
  fix x :: real assume a: "0 < x \<and> x < 1"
  then have y: "1 < 1 / x" by simp
  have "1 / (2 * x) = (1 / x) / 2" by simp
  moreover have "\<lceil>(1 / x) / 2\<rceil> < \<lceil>1 / x\<rceil>"
  proof (cases "1 / x \<le> 2")
    case True
    then have "\<lceil>(1 / x) / 2\<rceil> \<le> 1" by (simp add: ceiling_le_iff)
    moreover have "1 < \<lceil>1 / x\<rceil>" using y by (simp add: less_ceiling_iff)
    ultimately show ?thesis by linarith
  next
    case False
    then have "(1 / x) / 2 \<le> 1 / x - 1" by simp
    then have "\<lceil>(1 / x) / 2\<rceil> \<le> \<lceil>1 / x - 1\<rceil>" by (rule ceiling_mono)
    then show ?thesis by simp
  qed
  moreover have "0 < \<lceil>1 / x\<rceil>" using y by linarith
  ultimately show "(2 * x, x) \<in> measure (\<lambda>x. nat \<lceil>1 / x\<rceil>)"
    by (simp add: mult.commute)
qed

definition binary_exponent :: "real \<Rightarrow> int" where
  "binary_exponent x = (if 1 \<le> x then int (count_halvings x) else - int (count_doublings x))"

definition pow2 :: "int \<Rightarrow> real" where
  "pow2 e = (if 0 \<le> e then 2 ^ nat e else 1 / 2 ^ nat (- e))"

definition round_half_even :: "real \<Rightarrow> int" where
  "round_half_even x =
     (if x - of_int \<lfloor>x\<rfloor> < 1 / 2 then \<lfloor>x\<rfloor>
      else if 1 / 2 < x - of_int \<lfloor>x\<rfloor> then \<lfloor>x\<rfloor> + 1
      else if even \<lfloor>x\<rfloor> then \<lfloor>x\<rfloor> else \<lfloor>x\<rfloor> + 1)"

definition fl :: "real \<Rightarrow> real" where
  "fl x =
     (if x = 0 then 0
      else of_int (round_half_even (x / pow2 (binary_exponent \<bar>x\<bar> - 52)))
             * pow2 (binary_exponent \<bar>x\<bar> - 52))"

text \<open>
  A Python slice \<open>xs[a:b]\<close> of a sequence, with negative bounds counted from the
  end and both bounds clipped to the sequence.
\<close>

definition slice_bound :: "nat \<Rightarrow> int \<Rightarrow> nat" where
  "slice_bound n i = (if i < 0 then nat (max 0 (int n + i)) else min n (nat i))"

definition py_slice :: "'a list \<Rightarrow> int \<Rightarrow> int \<Rightarrow> 'a list" where
  "py_slice xs a b = take (slice_bound (length xs) b - slice_bound (length xs) a)
                       (drop (slice_bound (length xs) a) xs)"

section \<open>The asymmetry pipeline (BeamsModel.py, RunData)\<close>

text \<open>
  The histogram table is a pandas \<open>DataFrame\<close> with the default row labels
  \<open>0, 1, \<dots>\<close>: \<open>n_rows\<close> rows and, per histogram title, a column of counts.
  The format dictionary gives the good-bin bounds per histogram (already passed
  through \<open>int\<close>) and the bin size; a missing title raises \<open>KeyError\<close>.
\<close>

record DataFrame =
  n_rows :: nat
  col :: "pystr \<rightharpoonup> (nat \<Rightarrow> real)"

record f_format =
  GoodBinOne :: "pystr \<rightharpoonup> int"
  GoodBinTwo :: "pystr \<rightharpoonup> int"
  binsize :: real

text \<open>
  A run holds the asymmetry as a pandas \<open>Series\<close>, a list of values with their
  row labels, and the uncertainty as an array, which \<open>np.nan_to_num\<close> has made
  finite.
\<close>

record RunData =
  f_formats :: f_format
  histogram_data :: DataFrame
  run_asymmetry :: "(int \<times> float64) list"
  run_uncertainty :: "real list"






text \<open>
  The loops of \<open>bin_data\<close>: \<open>count\<close> output bins, the group of the next one
  starting at position \<open>binned_bins\<close>, which advances by
  \<open>binned_indices_per_bin\<close>.
\<close>

fun bin_loop :: "(int \<Rightarrow> 'a) \<Rightarrow> nat \<Rightarrow> int \<Rightarrow> int \<Rightarrow> 'a list" where
  "bin_loop entry 0 binned_bins binned_indices_per_bin = []"
| "bin_loop entry (Suc count) binned_bins binned_indices_per_bin =
     entry binned_bins
       # bin_loop entry count (binned_bins + binned_indices_per_bin) binned_indices_per_bin"

definition binned_asymmetry_at :: "RunData \<Rightarrow> int \<Rightarrow> int \<Rightarrow> float64" where
  "binned_asymmetry_at self binned_indices_per_bin binned_bins =
     np_mean (py_slice (map snd (run_asymmetry self)) binned_bins
                (binned_bins + binned_indices_per_bin))"

definition binned_uncertainty_at :: "RunData \<Rightarrow> int \<Rightarrow> int \<Rightarrow> float64" where
  "binned_uncertainty_at self binned_indices_per_bin binned_bins =
     fdiv (Finite (sqrt (sum_list (map (\<lambda>u. u ^ 2)
                      (py_slice (run_uncertainty self) binned_bins
                         (binned_bins + binned_indices_per_bin))))))
          (Finite (real_of_int binned_indices_per_bin))"

text \<open>
  \<open>bin_data\<close> returns the binned asymmetry, the times and the binned
  uncertainty. The widths and times are Python floats: \<open>float(...)\<close> and every
  operation on them is rounded by \<open>fl\<close>, \<open>begin_time\<close> is taken as the float it
  is, a division by zero raises, and \<open>np.empty\<close> refuses a negative size. The two
  branches of the source run the same loop, with and without the uncertainty.
\<close>

definition bin_data ::
  "RunData \<Rightarrow> real \<Rightarrow> real \<Rightarrow> real \<Rightarrow> bool \<Rightarrow> py_error + float64 list \<times> real list \<times> float64 list" where
  "bin_data self final_bin_size begin_time end_time slider_moving =
     (let bin_full = fl (fl (binsize (f_formats self)) / 1000);
          bin_binned = fl (fl final_bin_size / 1000)
      in if bin_full = 0 then Inl ZeroDivisionError
         else
           (let initial_bin = \<lfloor>fl (begin_time / bin_full)\<rfloor>;
                binned_indices_per_bin = \<lfloor>fl (bin_binned / bin_full)\<rfloor>
            in if bin_binned = 0 then Inl ZeroDivisionError
               else
                 (let binned_indices_total =
                        \<lfloor>fl (fl (fl end_time - fl begin_time) / bin_binned)\<rfloor>
                  in if binned_indices_total < 0
                       then Inl (ValueError ''negative dimensions are not allowed'')
                     else
                       (let binned_time = map (\<lambda>index. fl (begin_time + fl (real index * bin_binned)))
                                            [0..<nat binned_indices_total]
                        in if slider_moving then
                             Inr (bin_loop (binned_asymmetry_at self binned_indices_per_bin)
                                    (nat binned_indices_total) initial_bin binned_indices_per_bin,
                                  binned_time, [])
                           else
                             Inr (bin_loop (binned_asymmetry_at self binned_indices_per_bin)
                                    (nat binned_indices_total) initial_bin binned_indices_per_bin,
                                  binned_time,
                                  bin_loop (binned_uncertainty_at self binned_indices_per_bin)
                                    (nat binned_indices_total) initial_bin binned_indices_per_bin)))))"

subsection \<open>Concrete runs\<close>


text \<open>
  A constructed run (its histogram table is deleted) in bins of 1 ns: forty-two
  samples of 1 followed by one of 44, with no uncertainty.
\<close>

definition fine_run :: RunData where
  "fine_run =
     \<lparr>f_formats = \<lparr>GoodBinOne = Map.empty, GoodBinTwo = Map.empty, binsize = 1\<rparr>,
      histogram_data = \<lparr>n_rows = 0, col = Map.empty\<rparr>,
      run_asymmetry = zip [0..42] (replicate 42 (Finite 1) @ [Finite 44]),
      run_uncertainty = replicate 43 0\<rparr>"

section \<open>The spectral transform (BeamsModel.py, RunData.calculate_fft)\<close>

text \<open>
  \<open>np.fft.fft\<close> on a real array, by its documented definition: entry \<open>k\<close> is the
  sum of \<open>a\<^sub>m exp(-2\<pi>i mk/n)\<close> over the \<open>n\<close> samples.
\<close>

definition np_fft :: "real list \<Rightarrow> complex list" where
  "np_fft a =
     map (\<lambda>k. \<Sum>m < length a. complex_of_real (a ! m)
                   * cis (- 2 * pi * real m * real k / real (length a)))
       [0..<length a]"

text \<open>
  \<open>np.linspace(start, stop, num)\<close> and the \<open>min\<close> and \<open>max\<close> of a non-empty
  array.
\<close>

definition linspace :: "float64 \<Rightarrow> float64 \<Rightarrow> nat \<Rightarrow> float64 list" where
  "linspace start stop num =
     map (\<lambda>i. fadd start (fmul (Finite (real i)) (fdiv (fsub stop start) (Finite (real num - 1)))))
       [0..<num]"

definition array_min :: "float64 list \<Rightarrow> float64" where
  "array_min xs = foldl fmin (hd xs) (tl xs)"

definition array_max :: "float64 list \<Rightarrow> float64" where
  "array_max xs = foldl fmax (hd xs) (tl xs)"

text \<open>
  The frequencies \<open>k / (n * bin_size / 1000)\<close> of the first half of the spectrum,
  and the magnitudes \<open>|fft / n|\<close> of that half, before the first is set to 0.
\<close>

definition fft_frequencies :: "real \<Rightarrow> nat \<Rightarrow> float64 list" where
  "fft_frequencies bin_size n =
     take (n div 2)
       (map (\<lambda>k. fdiv (Finite (real k)) (Finite (real n * bin_size / 1000))) [0..<n])"

definition half_spectrum :: "real list \<Rightarrow> real list" where
  "half_spectrum asymm =
     map (\<lambda>c. cmod (c / complex_of_real (real (length asymm))))
       (take (length asymm div 2) (np_fft asymm))"

text \<open>
  \<open>calculate_fft\<close>. The asymmetry and the times hold finite values. \<open>spline f y\<close>
  stands for \<open>scipy.interpolate.UnivariateSpline(f, y)\<close> with its smoothing factor
  set to 0, as the function that evaluates it. The two rows given to \<open>np.fft.fft\<close>
  must have one length, an empty row is refused, and \<open>y_values[0] = 0\<close> needs a
  first entry. The result is the pair \<open>[x_smooth, y_smooth]\<close>.
\<close>

definition calculate_fft ::
  "(float64 list \<Rightarrow> real list \<Rightarrow> py_error + (float64 \<Rightarrow> float64)) \<Rightarrow> real \<Rightarrow> real list
     \<Rightarrow> real list \<Rightarrow> py_error + float64 list \<times> float64 list" where
  "calculate_fft spline bin_size asymm time_values =
     (let n = length asymm;
          frequencies = fft_frequencies bin_size n
      in if length time_values \<noteq> n
           then Inl (ValueError ''setting an array element with a sequence.'')
         else if n = 0 then Inl (ValueError ''Invalid number of FFT data points (0) specified.'')
         else if half_spectrum asymm = [] then Inl IndexError
         else
           (let y_values = (half_spectrum asymm)[0 := 0];
                x_smooth = linspace (array_min frequencies) (array_max frequencies) 300
            in ebind (spline frequencies y_values)
                 (\<lambda>y_smooth. Inr (x_smooth, map y_smooth x_smooth))))"

section \<open>The uncertainty estimator (fit.py, get_std_unc)\<close>








subsection \<open>Concrete inputs of the numeric routines\<close>

text \<open>A spline evaluator that is 0 everywhere, whatever the points.\<close>

definition flat_spline :: "float64 list \<Rightarrow> real list \<Rightarrow> py_error + (float64 \<Rightarrow> float64)" where
  "flat_spline f y = Inr (\<lambda>x. Finite 0)"



section \<open>Verified properties\<close>

subsection \<open>Evaluation rules and shared lemmas\<close>

lemmas fit_defs = fit_def unequal_spec_def global_fixed_spec_def default_options_def run_long_def
  run_short_def var_a_def var_b_def stub_externals_def least_squares_fit_non_global_def
  least_squares_fit_global_def ebind_def lambdify_def lambdify_global_def non_global_fit_run_def
  global_fit_run_def get_fixed_symbols_def get_fixed_guesses_def get_unfixed_symbols_def
  get_unfixed_guesses_def get_unfixed_lower_bounds_def get_unfixed_upper_bounds_def
  get_non_global_symbols_def get_global_fit_symbols_def get_global_fit_guesses_def
  get_global_fit_lowers_def get_global_fit_uppers_def global_fit_expand_def get_data_length_def
  py_index_def fixed_replaced_def enumerate_list_def INDEPENDENT_VARIABLE_def replace_symbols_def
  PI_def NAUGHT_def cps_def new_FitDataset_def new_Fit_def set_variables_def shortened_run_id_def
  replace_var_with_def

lemma map_of_dict_set: "map_of (dict_set k v d) = (map_of d)(k \<mapsto> v)"
  by (induction d) (auto simp: fun_eq_iff)

subsection \<open>The length test of \<open>FitEngine.fit\<close>\<close>

text \<open>
  Claim C2: a fit specification whose datasets are not all of equal length makes
  \<open>fit\<close> raise \<open>ValueError\<close> before any optimization. The code does not do this:
  its test compares the lengths of the run identifiers. Here the two datasets have
  three and two samples, the identifiers have equal length, and \<open>fit\<close> runs the
  optimizer for both runs and returns a dataset holding both fits.
\<close>

theorem fit_accepts_unequal_lengths:
  "map (\<lambda>(rid, a). length (asym_values a)) (asymmetries unequal_spec) = [3, 2]
   \<and> (\<exists>dataset. fit (stub_externals [1 / 2]) unequal_spec = Inr (Some dataset)
         \<and> map fst (fits dataset) = [cps ''1001'', cps ''1002''])"
  by (simp add: fit_defs upt_rec)

subsection \<open>Fixed parameters in the two fit paths\<close>

text \<open>
  The per-run path overwrites the variables stored under the unfixed symbols and
  no others.
\<close>

lemma assign_unfixed_keeps:
  "assign_unfixed final_variables symbols x = Inr fv' \<Longrightarrow> k \<notin> snd ` set symbols \<Longrightarrow>
     map_of fv' k = map_of final_variables k"
proof (induction symbols arbitrary: final_variables)
  case Nil
  then show ?case by simp
next
  case (Cons p symbols)
  obtain i symb where p: "p = (i, symb)" by (cases p)
  from Cons.prems p show ?case
    by (auto simp: map_of_dict_set split: if_splits option.splits dest!: Cons.IH)
qed

lemma per_run_fit_keeps_fixed:
  assumes "non_global_fit_run E spec residual rid a = Inr new_fit"
    and "k \<notin> set (get_unfixed_symbols spec)"
  shows "map_of (fit_variables new_fit) k = map_of (spec_variables spec) k"
proof -
  have "k \<notin> snd ` set (enumerate_list (get_unfixed_symbols spec))"
    using assms(2) by (auto simp: enumerate_list_def dest: set_zip_rightD)
  then show ?thesis using assms(1)
    by (auto simp: non_global_fit_run_def ebind_def set_variables_def
          split: if_splits sum.splits dest: assign_unfixed_keeps)
qed

text \<open>
  Claim C4: in the result of every fit, global or per-run, a fixed parameter keeps
  its stored value. The global path does not get that far: it looks every variable
  up in the optimizer's values, which hold no entry for a fixed one. With \<open>a\<close> fixed
  and \<open>b\<close> free the global fit raises \<open>KeyError\<close> for \<open>a\<close> and returns no result.
\<close>

theorem global_fit_fixed_raises:
  "fit (stub_externals [1 / 2]) global_fixed_spec = Inl (KeyError (cps ''a''))"
  by (simp add: fit_defs upt_rec)

subsection \<open>Textual substitution\<close>

text \<open>
  Claim C6: the rewrites before compilation replace whole identifiers only. The
  code uses \<open>str.replace\<close>: substituting the fixed parameter \<open>d\<close>, or renaming \<open>d\<close>
  for run \<open>1001\<close>, also rewrites the \<open>d\<close> at the start of \<open>delta\<close>.
\<close>

theorem replace_rewrites_inside_identifiers:
  "replace_fixed sv (cps ''d*t + delta'') [cps ''d''] [v]
     = sv v @ cps ''*t + '' @ sv v @ cps ''elta''
   \<and> replace_var_with (cps ''d*t + delta'') (cps ''d'') (cps ''d1001'')
     = cps ''d1001*t + d1001elta''"
  by (simp add: replace_var_with_def cps_def)

subsection \<open>Model-string validation\<close>

lemma str_contains_single: "str_contains s [c] = (c \<in> set s)"
  by (induction s) auto

lemma valid_loop_before_paren:
  "\<not> str_contains pre (cps ''('') \<Longrightarrow>
     valid_loop ok e (pre @ rest) iv False = valid_loop ok e rest iv False"
  by (induction pre) (auto simp: cps_def)

lemma valid_loop_rhs:
  "valid_loop ok e s iv op \<Longrightarrow> \<exists>rhs. after_first_eq e = Some rhs \<and> ok rhs"
  by (induction s arbitrary: iv op) (auto split: if_splits option.splits)

text \<open>
  Claim C7: validation returns false for a string without \<open>=\<close>, for a string whose
  first parenthesis pair is empty (no independent-variable name), and for a string
  whose right-hand side, the text after the first \<open>=\<close>, is rejected by the symbolic
  library; \<open>A(t)=a*t+b\<close> is valid when the library accepts \<open>a*t+b\<close>, and \<open>a*t+b\<close>
  is not valid.
\<close>

theorem is_valid_expression_fails_closed:
  "(\<not> str_contains e (cps ''='') \<longrightarrow> \<not> is_valid_expression ok e)
   \<and> (\<not> str_contains pre (cps ''('') \<longrightarrow> \<not> is_valid_expression ok (pre @ cps ''()'' @ post))
   \<and> (after_first_eq e = Some rhs \<and> \<not> ok rhs \<longrightarrow> \<not> is_valid_expression ok e)
   \<and> (ok (cps ''a*t+b'') \<longrightarrow> is_valid_expression ok (cps ''A(t)=a*t+b''))
   \<and> \<not> is_valid_expression ok (cps ''a*t+b'')"
proof (intro conjI impI)
  show "\<not> is_valid_expression ok e" if "\<not> str_contains e (cps ''='')"
    using that by (simp add: is_valid_expression_def)
  show "\<not> is_valid_expression ok (pre @ cps ''()'' @ post)" if "\<not> str_contains pre (cps ''('')"
  proof -
    have "valid_loop ok (pre @ cps ''()'' @ post) (pre @ cps ''()'' @ post) [] False
          = valid_loop ok (pre @ cps ''()'' @ post) (cps ''()'' @ post) [] False"
      using that by (rule valid_loop_before_paren)
    also have "\<dots> = False" by (simp add: cps_def)
    finally show ?thesis by (simp add: is_valid_expression_def)
  qed
  show "\<not> is_valid_expression ok e" if "after_first_eq e = Some rhs \<and> \<not> ok rhs"
    using that valid_loop_rhs[of ok e e "[]" False]
    by (auto simp: is_valid_expression_def split: if_splits)
  show "is_valid_expression ok (cps ''A(t)=a*t+b'')" if "ok (cps ''a*t+b'')"
    using that by (simp add: is_valid_expression_def cps_def)
  show "\<not> is_valid_expression ok (cps ''a*t+b'')"
    by (simp add: is_valid_expression_def cps_def)
qed

theorem is_valid_expression_fails_closed_witness:
  "\<not> str_contains (cps ''a*t'') (cps ''='')
   \<and> \<not> is_valid_expression (\<lambda>s. s = cps ''a*t+b'') (cps ''a*t'')
   \<and> \<not> str_contains (cps ''A'') (cps ''('')
   \<and> \<not> is_valid_expression (\<lambda>s. s = cps ''a*t+b'') (cps ''A'' @ cps ''()'' @ cps ''=a*t+b'')
   \<and> after_first_eq (cps ''A(t)=a*'') = Some (cps ''a*'') \<and> cps ''a*'' \<noteq> cps ''a*t+b''
   \<and> \<not> is_valid_expression (\<lambda>s. s = cps ''a*t+b'') (cps ''A(t)=a*'')
   \<and> is_valid_expression (\<lambda>s. s = cps ''a*t+b'') (cps ''A(t)=a*t+b'')"
  using is_valid_expression_fails_closed
      [of "cps ''a*t''" "\<lambda>s. s = cps ''a*t+b''" "cps ''A''" "cps ''=a*t+b''"]
    is_valid_expression_fails_closed
      [of "cps ''A(t)=a*''" "\<lambda>s. s = cps ''a*t+b''" "cps ''A''" "cps ''=a*t+b''" "cps ''a*''"]
  by (simp add: cps_def)

subsection \<open>The expression parser\<close>


































subsection \<open>Calling a fit\<close>

lemma map_of_fold_kwargs:
  "map_of (fold (\<lambda>var kw. if \<not> is_fixed var then dict_set (symbol var) (var_value var) kw else kw) vs kw0)
   = map_of (rev (map (\<lambda>var. (symbol var, var_value var)) (filter (\<lambda>var. \<not> is_fixed var) vs)) @ kw0)"
  by (induction vs arbitrary: kw0) (auto simp: map_of_dict_set fun_eq_iff)

text \<open>
  Claim C10: calling a \<open>Fit\<close> with no positional argument, or with a first
  argument that is not an array, raises \<open>ValueError\<close>; with an array first it
  returns the evaluator applied to the array and the stored keyword arguments,
  which hold, under their symbols, the values of the variables that are not fixed
  (a later variable wins where two share a symbol).
\<close>

theorem Fit_call_checks_first_argument:
  "Fit_call self [] kw = Inl (ValueError ''Only takes numpy array of values as an input.'')
   \<and> ((\<forall>xs. a \<noteq> NdArray xs) \<longrightarrow>
        Fit_call self (a # args) kw = Inl (ValueError ''Only takes numpy array of values as an input.''))
   \<and> (expression_as_lambda self = Some f \<longrightarrow>
        Fit_call self (NdArray xs # args) kw = Inr (f xs (kwargs self)))
   \<and> map_of (kwargs (set_variables fit0 vars))
       = map_of (rev (map (\<lambda>var. (symbol var, var_value var))
                       (filter (\<lambda>var. \<not> is_fixed var) (map snd vars))))"
proof (intro conjI impI)
  show "Fit_call self [] kw = Inl (ValueError ''Only takes numpy array of values as an input.'')"
    by (simp add: Fit_call_def)
  show "Fit_call self (a # args) kw = Inl (ValueError ''Only takes numpy array of values as an input.'')"
    if "\<forall>xs. a \<noteq> NdArray xs"
    using that by (cases a) (simp_all add: Fit_call_def)
  show "Fit_call self (NdArray xs # args) kw = Inr (f xs (kwargs self))"
    if "expression_as_lambda self = Some f"
    using that by (simp add: Fit_call_def)
  show "map_of (kwargs (set_variables fit0 vars))
       = map_of (rev (map (\<lambda>var. (symbol var, var_value var))
                       (filter (\<lambda>var. \<not> is_fixed var) (map snd vars))))"
    using map_of_fold_kwargs[of "map snd vars" "[]"] by (simp add: set_variables_def)
qed

theorem Fit_call_checks_first_argument_witness:
  "(\<forall>xs. PyList [1, 2] \<noteq> NdArray xs)
   \<and> Fit_call (set_variables new_Fit [(cps ''a'', var_a), (cps ''b'', var_b\<lparr>is_fixed := True\<rparr>)])
        [PyList [1, 2]] [] = Inl (ValueError ''Only takes numpy array of values as an input.'')
   \<and> Fit_call ((set_variables new_Fit [(cps ''a'', var_a), (cps ''b'', var_b\<lparr>is_fixed := True\<rparr>)])
          \<lparr>expression_as_lambda := Some (\<lambda>xs kws. (xs, kws))\<rparr>) [NdArray [1, 2]] []
       = Inr ([1, 2], [(cps ''a'', 1)])"
  using Fit_call_checks_first_argument
      [of "set_variables new_Fit [(cps ''a'', var_a), (cps ''b'', var_b\<lparr>is_fixed := True\<rparr>)]"
          "[]" "PyList [1, 2]" "[]"]
    Fit_call_checks_first_argument
      [of "(set_variables new_Fit [(cps ''a'', var_a), (cps ''b'', var_b\<lparr>is_fixed := True\<rparr>)])
          \<lparr>expression_as_lambda := Some (\<lambda>xs kws. (xs, kws))\<rparr>" "[]" _ "[]" "\<lambda>xs kws. (xs, kws)" "[1, 2]"]
  by (simp add: set_variables_def new_Fit_def var_a_def var_b_def cps_def Fit_call_def)


subsection \<open>Asymmetry\<close>






subsection \<open>Rebinning\<close>

lemma length_bin_loop: "length (bin_loop entry n b k) = n"
  by (induction n arbitrary: b) auto

lemma nth_bin_loop: "j < n \<Longrightarrow> bin_loop entry n b k ! j = entry (b + int j * k)"
proof (induction n arbitrary: b j)
  case 0
  then show ?case by simp
next
  case (Suc n)
  show ?case
  proof (cases j)
    case 0
    then show ?thesis by simp
  next
    case (Suc j')
    then have "j' < n" using Suc.prems by simp
    from Suc.IH[OF this, of "b + k"] Suc show ?thesis by (simp add: algebra_simps)
  qed
qed

lemma py_slice_in_range:
  "0 \<le> a \<Longrightarrow> a \<le> b \<Longrightarrow> b \<le> int (length xs) \<Longrightarrow>
     py_slice xs a b = take (nat (b - a)) (drop (nat a) xs)"
  by (auto simp: py_slice_def slice_bound_def min_def nat_diff_distrib)

lemma foldl_fadd_finite: "foldl fadd (Finite a) (map Finite vs) = Finite (a + sum_list vs)"
  by (induction vs arbitrary: a) (auto simp: add.assoc)

lemma np_mean_finite:
  "vs \<noteq> [] \<Longrightarrow> np_mean (map Finite vs) = Finite (sum_list vs / real (length vs))"
  by (simp add: np_mean_def fsum_def foldl_fadd_finite)


text \<open>
  What \<open>bin_data\<close> returns, with \<open>k\<close>, the first position and the number of bins
  as the code computes them: output \<open>j\<close> is the mean, and the root of the summed
  squares over \<open>k\<close>, of the slice from position \<open>first_bin + j k\<close> on, which has
  exactly \<open>k\<close> samples where that range lies inside the stored array.
\<close>

lemma bin_data_groups:
  assumes "bin_full = fl (fl (binsize (f_formats self)) / 1000)" and "bin_full \<noteq> 0"
    and "bin_binned = fl (fl final_bin_size / 1000)" and "bin_binned \<noteq> 0"
    and "k = \<lfloor>fl (bin_binned / bin_full)\<rfloor>"
    and "first_bin = \<lfloor>fl (begin_time / bin_full)\<rfloor>"
    and "n_bins = \<lfloor>fl (fl (fl end_time - fl begin_time) / bin_binned)\<rfloor>"
    and "0 \<le> n_bins"
  shows "\<exists>ba bu.
     bin_data self final_bin_size begin_time end_time slider_moving
       = Inr (ba, map (\<lambda>index. fl (begin_time + fl (real index * bin_binned))) [0..<nat n_bins], bu)
     \<and> length ba = nat n_bins
     \<and> (slider_moving \<longrightarrow> bu = [])
     \<and> (\<forall>j < nat n_bins.
          ba ! j = np_mean (py_slice (map snd (run_asymmetry self)) (first_bin + int j * k)
                              (first_bin + int j * k + k))
          \<and> (\<not> slider_moving \<longrightarrow>
               bu ! j = fdiv (Finite (sqrt (sum_list (map (\<lambda>u. u ^ 2)
                                 (py_slice (run_uncertainty self) (first_bin + int j * k)
                                    (first_bin + int j * k + k))))))
                          (Finite (real_of_int k))))
     \<and> (\<forall>j < nat n_bins. 0 \<le> first_bin \<and> 0 < k
            \<and> first_bin + (int j + 1) * k \<le> int (length (run_asymmetry self)) \<longrightarrow>
          ba ! j = np_mean (take (nat k) (drop (nat (first_bin + int j * k)) (map snd (run_asymmetry self))))
          \<and> (\<forall>vs. take (nat k) (drop (nat (first_bin + int j * k)) (map snd (run_asymmetry self)))
                    = map Finite vs \<longrightarrow>
                 length vs = nat k \<and> ba ! j = Finite (sum_list vs / real_of_int k)))
     \<and> (\<not> slider_moving \<longrightarrow> length bu = nat n_bins
          \<and> (\<forall>j < nat n_bins. 0 \<le> first_bin \<and> 0 < k
                 \<and> first_bin + (int j + 1) * k \<le> int (length (run_uncertainty self)) \<longrightarrow>
               length (take (nat k) (drop (nat (first_bin + int j * k)) (run_uncertainty self))) = nat k
               \<and> bu ! j = Finite (sqrt (sum_list (map (\<lambda>u. u ^ 2)
                     (take (nat k) (drop (nat (first_bin + int j * k)) (run_uncertainty self)))))
                   / real_of_int k)))"
proof -
  define ba where "ba = bin_loop (binned_asymmetry_at self k) (nat n_bins) first_bin k"
  define bu where "bu = (if slider_moving then []
                         else bin_loop (binned_uncertainty_at self k) (nat n_bins) first_bin k)"
  have run: "bin_data self final_bin_size begin_time end_time slider_moving
       = Inr (ba, map (\<lambda>index. fl (begin_time + fl (real index * bin_binned))) [0..<nat n_bins], bu)"
    using assms by (simp add: bin_data_def Let_def ba_def bu_def)
  have len: "length ba = nat n_bins" by (simp add: ba_def length_bin_loop)
  have slice: "py_slice xs (first_bin + int j * k) (first_bin + int j * k + k)
                 = take (nat k) (drop (nat (first_bin + int j * k)) xs)"
    if "0 \<le> first_bin" "0 < k" "first_bin + (int j + 1) * k \<le> int (length xs)" for xs :: "'a list" and j
  proof -
    have "0 \<le> first_bin + int j * k" using that by simp
    moreover have "first_bin + int j * k + k \<le> int (length xs)" using that by (simp add: algebra_simps)
    ultimately show ?thesis using that py_slice_in_range[of "first_bin + int j * k" "first_bin + int j * k + k" xs]
      by simp
  qed
  have lenslice: "length (take (nat k) (drop (nat (first_bin + int j * k)) xs)) = nat k"
    if "0 \<le> first_bin" "0 < k" "first_bin + (int j + 1) * k \<le> int (length xs)" for xs :: "'a list" and j
  proof -
    have "0 \<le> first_bin + int j * k" using that by simp
    moreover have "first_bin + int j * k + k \<le> int (length xs)" using that by (simp add: algebra_simps)
    ultimately show ?thesis by auto
  qed
  have A: "ba ! j = np_mean (take (nat k) (drop (nat (first_bin + int j * k)) (map snd (run_asymmetry self))))
          \<and> (\<forall>vs. take (nat k) (drop (nat (first_bin + int j * k)) (map snd (run_asymmetry self)))
                    = map Finite vs \<longrightarrow>
                 length vs = nat k \<and> ba ! j = Finite (sum_list vs / real_of_int k))"
    if j: "j < nat n_bins" and h: "0 \<le> first_bin \<and> 0 < k
            \<and> first_bin + (int j + 1) * k \<le> int (length (run_asymmetry self))" for j
  proof -
    have h': "0 \<le> first_bin" "0 < k" "first_bin + (int j + 1) * k \<le> int (length (map snd (run_asymmetry self)))"
      using h by simp_all
    have m: "ba ! j = np_mean (take (nat k) (drop (nat (first_bin + int j * k)) (map snd (run_asymmetry self))))"
      using j slice[OF h'] by (simp add: ba_def nth_bin_loop binned_asymmetry_at_def)
    have "length vs = nat k \<and> ba ! j = Finite (sum_list vs / real_of_int k)"
      if v: "take (nat k) (drop (nat (first_bin + int j * k)) (map snd (run_asymmetry self))) = map Finite vs" for vs
    proof -
      have l: "length vs = nat k" using lenslice[OF h'] v by (metis length_map)
      then have "vs \<noteq> []" using h'(2) by auto
      then show ?thesis using m v l h'(2) by (simp add: np_mean_finite)
    qed
    then show ?thesis using m by blast
  qed
  have B: "length (take (nat k) (drop (nat (first_bin + int j * k)) (run_uncertainty self))) = nat k
               \<and> bu ! j = Finite (sqrt (sum_list (map (\<lambda>u. u ^ 2)
                     (take (nat k) (drop (nat (first_bin + int j * k)) (run_uncertainty self)))))
                   / real_of_int k)"
    if ns: "\<not> slider_moving" and j: "j < nat n_bins" and h: "0 \<le> first_bin \<and> 0 < k
            \<and> first_bin + (int j + 1) * k \<le> int (length (run_uncertainty self))" for j
  proof -
    have h': "0 \<le> first_bin" "0 < k" "first_bin + (int j + 1) * k \<le> int (length (run_uncertainty self))"
      using h by simp_all
    show ?thesis using ns j slice[OF h'] lenslice[OF h'] h'(2)
      by (simp add: bu_def nth_bin_loop binned_uncertainty_at_def)
  qed
  have C: "\<not> slider_moving \<longrightarrow> length bu = nat n_bins" by (simp add: bu_def length_bin_loop)
  have D: "slider_moving \<longrightarrow> bu = []" by (simp add: bu_def)
  have E: "ba ! j = np_mean (py_slice (map snd (run_asymmetry self)) (first_bin + int j * k)
                              (first_bin + int j * k + k))
          \<and> (\<not> slider_moving \<longrightarrow>
               bu ! j = fdiv (Finite (sqrt (sum_list (map (\<lambda>u. u ^ 2)
                                 (py_slice (run_uncertainty self) (first_bin + int j * k)
                                    (first_bin + int j * k + k))))))
                          (Finite (real_of_int k)))"
    if "j < nat n_bins" for j
    using that
    by (simp add: ba_def bu_def nth_bin_loop binned_asymmetry_at_def binned_uncertainty_at_def)
  show ?thesis using run len A B C D E by blast
qed


lemma fl_whole: "fl 0 = 0" "fl 1 = 1" "fl 43 = 43" "fl (1 / 16) = 1 / 16"
  by (simp_all add: fl_def binary_exponent_def pow2_def round_half_even_def)

lemma fl_thousandth: "fl (1 / 1000) = 4611686018427388 / 2 ^ 62"
  by (simp add: fl_def binary_exponent_def pow2_def round_half_even_def)

lemma fl_43_thousandths: "fl (43 / 1000) = 6196953087261802 / 2 ^ 57"
  by (simp add: fl_def binary_exponent_def pow2_def round_half_even_def)

lemma floor_43_over_1: "\<lfloor>fl (fl (43 / 1000) / fl (1 / 1000))\<rfloor> = 42"
  by (simp add: fl_thousandth fl_43_thousandths fl_def binary_exponent_def pow2_def
        round_half_even_def)

lemma floor_window: "\<lfloor>fl (fl (fl (1 / 16) - fl 0) / fl (43 / 1000))\<rfloor> = 1"
  by (simp add: fl_whole fl_43_thousandths)
     (simp add: fl_def binary_exponent_def pow2_def round_half_even_def)

lemma widths_not_zero: "fl (1 / 1000) \<noteq> 0" "fl (43 / 1000) \<noteq> 0"
  by (simp_all add: fl_thousandth fl_43_thousandths)

lemma fine_run_fields:
  "binsize (f_formats fine_run) = 1"
  "map snd (run_asymmetry fine_run) = replicate 42 (Finite 1) @ [Finite 44]"
  "run_uncertainty fine_run = replicate 43 0"
  by (simp_all add: fine_run_def)

lemma fsum_replicate: "foldl fadd (Finite a) (replicate n (Finite b)) = Finite (a + real n * b)"
  by (induction n arbitrary: a) (simp_all add: algebra_simps)

lemma fine_run_first_bin:
  "binned_asymmetry_at fine_run 42 0 = Finite 1"
  "binned_uncertainty_at fine_run 42 0 = Finite 0"
  by (simp_all add: binned_asymmetry_at_def binned_uncertainty_at_def fine_run_fields py_slice_def
        slice_bound_def np_mean_def fsum_def fsum_replicate sum_list_replicate)

lemma fine_run_43_mean: "np_mean (take 43 (map snd (run_asymmetry fine_run))) = Finite 2"
  by (simp add: fine_run_fields np_mean_def fsum_def fsum_replicate)

text \<open>
  Claim C5: with \<open>k\<close> the floor of the target width over the source width, each
  output asymmetry is the mean of its \<open>k\<close> grouped samples. The code takes the
  floor of a quotient of rounded floats: for a source width of 1 and a target
  width of 43 it divides 0.043 by 0.001, gets 42.99999999999999 and groups 42
  samples. The first output is the mean 1 of the first 42 samples, where the mean
  of the 43 samples of the claim is 2.
\<close>

theorem bin_data_groups_42_of_43:
  "bin_data fine_run 43 0 (1 / 16) False = Inr ([Finite 1], [0], [Finite 0])
   \<and> \<lfloor>(43 :: real) / binsize (f_formats fine_run)\<rfloor> = 43
   \<and> np_mean (take 43 (map snd (run_asymmetry fine_run))) = Finite 2"
proof -
  have bin_full: "fl (fl (binsize (f_formats fine_run)) / 1000) = fl (1 / 1000)"
    by (simp add: fine_run_fields fl_whole)
  have bin_binned: "fl (fl 43 / 1000) = fl (43 / 1000)"
    by (simp add: fl_whole)
  have initial_bin: "\<lfloor>fl (0 / fl (1 / 1000))\<rfloor> = 0"
    by (simp add: fl_whole)
  have "bin_data fine_run 43 0 (1 / 16) False = Inr ([Finite 1], [0], [Finite 0])"
    unfolding bin_data_def Let_def bin_full bin_binned initial_bin floor_43_over_1 floor_window
    by (simp add: widths_not_zero fine_run_first_bin fl_whole)
  then show ?thesis
    by (simp add: fine_run_fields(1) fine_run_43_mean)
qed

subsection \<open>The spectral transform\<close>

lemma length_np_fft: "length (np_fft a) = length a"
  by (simp add: np_fft_def)

lemma length_half_spectrum: "length (half_spectrum a) = length a div 2"
  by (simp add: half_spectrum_def length_np_fft)

lemma length_linspace: "length (linspace a b n) = n"
  by (simp add: linspace_def)

lemma half_spectrum_nonempty: "2 \<le> length a \<Longrightarrow> half_spectrum a \<noteq> []"
  using length_half_spectrum[of a] by (cases "half_spectrum a") auto

text \<open>
  Claim C9, as the code has it: the first magnitude of the half spectrum is set
  to 0, and what \<open>calculate_fft\<close> returns is the smoothed curve only: 300 evenly
  spaced frequencies between the least and the greatest frequency of the half
  spectrum, and the spline through the (frequency, magnitude) points evaluated at
  them. This holds for equally long arrays of at least two samples on which the
  spline can be built; whenever the function returns, both lists have 300 entries.
\<close>

theorem calculate_fft_returns_spline:
  "(length time_values = length asymm \<and> 2 \<le> length asymm
      \<and> spline (fft_frequencies bin_size (length asymm)) ((half_spectrum asymm)[0 := 0]) = Inr y_smooth
    \<longrightarrow> calculate_fft spline bin_size asymm time_values
          = Inr (linspace (array_min (fft_frequencies bin_size (length asymm)))
                   (array_max (fft_frequencies bin_size (length asymm))) 300,
                 map y_smooth (linspace (array_min (fft_frequencies bin_size (length asymm)))
                   (array_max (fft_frequencies bin_size (length asymm))) 300))
        \<and> ((half_spectrum asymm)[0 := 0]) ! 0 = 0)
   \<and> (calculate_fft spline bin_size asymm time_values = Inr (xs, ys)
        \<longrightarrow> length xs = 300 \<and> length ys = 300)"
proof (intro conjI impI)
  assume a: "length time_values = length asymm \<and> 2 \<le> length asymm
      \<and> spline (fft_frequencies bin_size (length asymm)) ((half_spectrum asymm)[0 := 0]) = Inr y_smooth"
  then have ne: "half_spectrum asymm \<noteq> []" using half_spectrum_nonempty by blast
  show "calculate_fft spline bin_size asymm time_values
          = Inr (linspace (array_min (fft_frequencies bin_size (length asymm)))
                   (array_max (fft_frequencies bin_size (length asymm))) 300,
                 map y_smooth (linspace (array_min (fft_frequencies bin_size (length asymm)))
                   (array_max (fft_frequencies bin_size (length asymm))) 300))"
    using a ne by (auto simp: calculate_fft_def Let_def ebind_def)
  show "((half_spectrum asymm)[0 := 0]) ! 0 = 0"
    using ne by (cases "half_spectrum asymm") auto
next
  assume r: "calculate_fft spline bin_size asymm time_values = Inr (xs, ys)"
  then show "length xs = 300"
    by (auto simp: calculate_fft_def Let_def ebind_def length_linspace split: if_splits sum.splits)
  from r show "length ys = 300"
    by (auto simp: calculate_fft_def Let_def ebind_def length_linspace split: if_splits sum.splits)
qed

theorem calculate_fft_returns_spline_witness:
  "length [0, 1, 2, 3, 4, 5, 6, 7 :: real] = length [1, 0, 0, 0, 0, 0, 0, 0 :: real]
   \<and> 2 \<le> length [1, 0, 0, 0, 0, 0, 0, 0 :: real]
   \<and> flat_spline (fft_frequencies 1 (length [1, 0, 0, 0, 0, 0, 0, 0 :: real]))
        ((half_spectrum [1, 0, 0, 0, 0, 0, 0, 0])[0 := 0]) = Inr (\<lambda>x. Finite 0)
   \<and> map_sum id (\<lambda>r. snd r ! 0) (calculate_fft flat_spline 1 [1, 0, 0, 0, 0, 0, 0, 0] [0, 1, 2, 3, 4, 5, 6, 7])
       = Inr (Finite 0)
   \<and> ((half_spectrum [1, 0, 0, 0, 0, 0, 0, 0])[0 := 0]) ! 0 = 0"
  using calculate_fft_returns_spline
    [of "[0, 1, 2, 3, 4, 5, 6, 7]" "[1, 0, 0, 0, 0, 0, 0, 0]" flat_spline 1 "\<lambda>x. Finite 0"]
  by (simp add: flat_spline_def linspace_def upt_rec[of 0 300])

text \<open>
  Claim C9 as stated fails: for eight samples the half spectrum has four
  magnitudes, and the list returned in their place has 300 entries.
\<close>

theorem calculate_fft_returns_300_samples:
  "map_sum id (\<lambda>r. length (snd r))
     (calculate_fft flat_spline 1 [1, 0, 0, 0, 0, 0, 0, 0] [0, 1, 2, 3, 4, 5, 6, 7]) = Inr 300
   \<and> length ((half_spectrum [1, 0, 0, 0, 0, 0, 0, 0])[0 := 0]) = 4"
proof -
  have ne: "half_spectrum [1, 0, 0, 0, 0, 0, 0, 0] \<noteq> []"
    by (rule half_spectrum_nonempty) simp
  show ?thesis using ne
    by (simp add: calculate_fft_def Let_def ebind_def flat_spline_def length_linspace
          length_half_spectrum)
qed

subsection \<open>The uncertainty estimator\<close>









lemma upt_one: "[0..<Suc 0] = [0]" by simp



end
